theory Spec2Isabelle
  imports Complex_Main
begin

section \<open>Battery Monitor Pro: the sampling and alerting loop\<close>

text \<open>
  The development embeds the part of \<^verbatim>\<open>battery_monitor_pro_windows.py\<close> that carries
  logic: \<^verbatim>\<open>BatteryMonitorPro.update_interface\<close> (one poll of the battery, the history
  deque, the charge rate and the two latched alerts), \<^verbatim>\<open>format_time\<close>, \<^verbatim>\<open>beep\<close>,
  \<^verbatim>\<open>show_big_alert\<close>, the part of \<^verbatim>\<open>__init__\<close> that builds the object's fields, and
  \<^verbatim>\<open>open_settings.save_and_close\<close>. Calls into Tk, the notifier, the log file and the
  operating system are recorded as events, in the order the code makes them, and are
  taken to return: the notifier, \<^verbatim>\<open>beep\<close>, \<^verbatim>\<open>show_big_alert\<close> and the Windows
  helpers catch their own exceptions. Python floats are read as real numbers and Python
  integers as \<^typ>\<open>int\<close>.
\<close>

subsection \<open>Values read from the platform\<close>

text \<open>
  \<^verbatim>\<open>psutil.sensors_battery()\<close> returns \<^verbatim>\<open>None\<close> without a battery and otherwise a
  tuple with \<^verbatim>\<open>percent\<close> (a float), \<^verbatim>\<open>secsleft\<close> and \<^verbatim>\<open>power_plugged\<close> (which may be
  \<^verbatim>\<open>None\<close>). The call sits inside the \<^verbatim>\<open>try\<close> of \<open>update_interface\<close>, so an exception
  it raises is one more outcome of a poll.
\<close>

record battery =
  percent :: real
  secsleft :: "int option"
  power_plugged :: "bool option"

datatype poll = SensorError | NoBattery | Battery battery

text \<open>
  One run of \<open>update_interface\<close> reads the outside world four times: the battery, the
  clock at the rate computation (line 463), the clock when the trackers are stored
  (line 523), and the user's answer to the hibernate question (line 502).
\<close>

record tick =
  sensors_battery :: poll
  time_rate :: real
  time_end :: real
  askyesno :: bool

text \<open>The two constants of psutil that \<open>format_time\<close> compares with.\<close>

definition POWER_TIME_UNKNOWN :: int where
  "POWER_TIME_UNKNOWN = - 1"

definition POWER_TIME_UNLIMITED :: int where
  "POWER_TIME_UNLIMITED = - 2"

text \<open>Python's \<^verbatim>\<open>round(x)\<close> on a float: to the nearest integer, a tie to the even one.\<close>

definition py_round :: "real \<Rightarrow> int" where
  "py_round x =
     (let f = \<lfloor>x\<rfloor>; d = x - of_int f
      in if d < 1 / 2 then f
         else if 1 / 2 < d then f + 1
         else if even f then f else f + 1)"

subsection \<open>The history deque\<close>

text \<open>
  \<^verbatim>\<open>collections.deque(maxlen=n)\<close>: a negative \<open>n\<close> raises \<^verbatim>\<open>ValueError\<close>; \<open>append\<close> adds
  on the right and, when the deque is then longer than \<open>maxlen\<close>, drops the leftmost
  item; \<open>clear\<close> removes every item and keeps \<open>maxlen\<close>.
\<close>

datatype py_error = ValueError

record deque =
  items :: "int list"
  maxlen :: nat

definition deque_new :: "int \<Rightarrow> py_error + deque" where
  "deque_new n =
     (if n < 0 then Inl ValueError else Inr \<lparr>items = [], maxlen = nat n\<rparr>)"

definition deque_append :: "deque \<Rightarrow> int \<Rightarrow> deque" where
  "deque_append d x =
     (let xs = items d @ [x]
      in d\<lparr>items := (if maxlen d < length xs then tl xs else xs)\<rparr>)"

definition deque_clear :: "deque \<Rightarrow> deque" where
  "deque_clear d = d\<lparr>items := []\<rparr>"

subsection \<open>The monitor object\<close>

record config =
  cfg_seuil_critique :: int
  cfg_seuil_plein :: int
  cfg_interval_ms :: int
  cfg_history_size :: int
  cfg_start_minimized :: bool
  cfg_enable_notifications :: bool
  cfg_play_sound :: bool
  cfg_auto_hibernate :: bool
  cfg_hibernate_threshold :: int
  cfg_enable_power_saver_auto :: bool
  cfg_power_saver_threshold :: int
  cfg_custom_command :: string
  cfg_autorun :: bool

definition DEFAULT_CONFIG :: config where
  "DEFAULT_CONFIG =
     \<lparr>cfg_seuil_critique = 15, cfg_seuil_plein = 95, cfg_interval_ms = 5000,
      cfg_history_size = 60, cfg_start_minimized = False,
      cfg_enable_notifications = True, cfg_play_sound = True,
      cfg_auto_hibernate = False, cfg_hibernate_threshold = 5,
      cfg_enable_power_saver_auto = False, cfg_power_saver_threshold = 20,
      cfg_custom_command = [], cfg_autorun = False\<rparr>"

text \<open>
  The fields of \<^verbatim>\<open>BatteryMonitorPro\<close> that the loop and the settings dialog read or
  write. \<open>IS_WINDOWS\<close> is the module constant of that name, \<open>running\<close> is \<^verbatim>\<open>_running\<close>.
\<close>

record monitor =
  IS_WINDOWS :: bool
  seuil_critique :: int
  seuil_plein :: int
  interval_ms :: int
  history_size :: int
  start_minimized :: bool
  enable_notifications :: bool
  play_sound :: bool
  auto_hibernate :: bool
  hibernate_threshold :: int
  enable_power_saver_auto :: bool
  power_saver_threshold :: int
  custom_command :: string
  autorun :: bool
  deja_alerte_critique :: bool
  deja_alerte_plein :: bool
  history :: deque
  running :: bool
  last_percent :: "int option"
  last_update :: "real option"

text \<open>
  \<^verbatim>\<open>__init__\<close>, lines 170 to 188 and 257 to 259: the configuration is copied into the
  object, both latches start false, the history is an empty deque of \<open>history_size\<close>
  places and there is no last reading. The first \<open>update_interface\<close>, which \<^verbatim>\<open>__init__\<close>
  calls last, is the first tick of a run.
\<close>

definition new_monitor :: "bool \<Rightarrow> config \<Rightarrow> deque \<Rightarrow> monitor" where
  "new_monitor w c d =
     \<lparr>IS_WINDOWS = w,
      seuil_critique = cfg_seuil_critique c,
      seuil_plein = cfg_seuil_plein c,
      interval_ms = cfg_interval_ms c,
      history_size = cfg_history_size c,
      start_minimized = cfg_start_minimized c,
      enable_notifications = cfg_enable_notifications c,
      play_sound = cfg_play_sound c,
      auto_hibernate = cfg_auto_hibernate c,
      hibernate_threshold = cfg_hibernate_threshold c,
      enable_power_saver_auto = cfg_enable_power_saver_auto c,
      power_saver_threshold = cfg_power_saver_threshold c,
      custom_command = cfg_custom_command c,
      autorun = cfg_autorun c,
      deja_alerte_critique = False,
      deja_alerte_plein = False,
      history = d,
      running = True,
      last_percent = None,
      last_update = None\<rparr>"

definition init :: "bool \<Rightarrow> config \<Rightarrow> py_error + monitor" where
  "init w c =
     (case deque_new (cfg_history_size c) of
        Inl e \<Rightarrow> Inl e
      | Inr d \<Rightarrow> Inr (new_monitor w c d))"

subsection \<open>Events\<close>

datatype time_text = Inconnu | Illimite | Calcul | HeuresMinutes int int | Minutes int

datatype log_msg =
    AlerteCritique int
  | CommandeLancee string
  | AutoHibernate int
  | AlertePleine int
  | ErreurUpdate

datatype label_state = AucuneBatterie | Branche | SurBatterie

datatype notification = BatterieCritique int time_text | BatteriePleine int

datatype event =
    DrawGauge int bool
  | DrawHistory "int list"
  | LabelState label_state
  | LabelTime "(time_text \<times> nat) option"
  | LabelRate real
  | LabelLast
  | Log log_msg
  | Notify notification
  | Beep
  | Popen string
  | SetPowerSaver
  | AskHibernate int
  | Hibernate
  | BigAlert int time_text bool bool
  | After int

subsection \<open>The helpers of the loop\<close>

definition format_time :: "int option \<Rightarrow> time_text" where
  "format_time secs =
     (case secs of
        None \<Rightarrow> Inconnu
      | Some n \<Rightarrow>
          if n = POWER_TIME_UNLIMITED then Illimite
          else if n = POWER_TIME_UNKNOWN \<or> n < 0 then Calcul
          else (let h = n div 3600; m = (n mod 3600) div 60
                in if 0 < h then HeuresMinutes h m else Minutes m))"

definition beep :: "monitor \<Rightarrow> event list" where
  "beep s = (if \<not> play_sound s then [] else [Beep])"

definition show_big_alert :: "monitor \<Rightarrow> int \<Rightarrow> time_text \<Rightarrow> bool \<Rightarrow> bool \<Rightarrow> event list" where
  "show_big_alert s pct txt critical full = BigAlert pct txt critical full # beep s"

text \<open>
  Lines 462 to 469. \<^verbatim>\<open>self.last_update\<close> is tested for truth, so a stored timestamp
  of \<open>0.0\<close> counts as absent; \<open>dt\<close> is in hours and a \<open>dt\<close> that is not positive gives
  the rate \<open>0.0\<close>.
\<close>

definition rate_per_hour :: "monitor \<Rightarrow> int \<Rightarrow> real \<Rightarrow> real" where
  "rate_per_hour s pct now =
     (case last_percent s of
        None \<Rightarrow> 0
      | Some lp \<Rightarrow>
          (case last_update s of
             None \<Rightarrow> 0
           | Some lu \<Rightarrow>
               if lu = 0 then 0
               else (let dt = (now - lu) / 3600
                     in if 0 < dt then real_of_int (pct - lp) / dt else 0)))"

text \<open>
  Lines 480 to 507: the critical alert and the actions attached to it. The custom
  command runs when the string is not empty; \<open>answer\<close> is the user's reply to the
  hibernate question.
\<close>

definition critical_alert ::
  "monitor \<Rightarrow> int \<Rightarrow> bool \<Rightarrow> time_text \<Rightarrow> bool \<Rightarrow> monitor \<times> event list" where
  "critical_alert s pct charging txt_time answer =
     (if pct \<le> seuil_critique s \<and> \<not> charging then
        (if \<not> deja_alerte_critique s then
           (s\<lparr>deja_alerte_critique := True\<rparr>,
            [Log (AlerteCritique pct)]
            @ (if enable_notifications s then [Notify (BatterieCritique pct txt_time)] else [])
            @ beep s
            @ (if custom_command s \<noteq> []
               then [Popen (custom_command s), Log (CommandeLancee (custom_command s))]
               else [])
            @ (if enable_power_saver_auto s \<and> IS_WINDOWS s then [SetPowerSaver] else [])
            @ (if auto_hibernate s \<and> IS_WINDOWS s \<and> pct \<le> hibernate_threshold s
               then [Log (AutoHibernate pct), AskHibernate pct]
                    @ (if answer then [Hibernate] else [])
               else [])
            @ show_big_alert s pct txt_time True False)
         else (s, []))
      else (s\<lparr>deja_alerte_critique := False\<rparr>, []))"

text \<open>Lines 510 to 519: the full-charge reminder.\<close>

definition full_alert ::
  "monitor \<Rightarrow> int \<Rightarrow> bool \<Rightarrow> time_text \<Rightarrow> monitor \<times> event list" where
  "full_alert s pct charging txt_time =
     (if charging \<and> seuil_plein s \<le> pct then
        (if \<not> deja_alerte_plein s then
           (s\<lparr>deja_alerte_plein := True\<rparr>,
            [Log (AlertePleine pct)]
            @ (if enable_notifications s then [Notify (BatteriePleine pct)] else [])
            @ beep s
            @ show_big_alert s pct txt_time False True)
         else (s, []))
      else (s\<lparr>deja_alerte_plein := False\<rparr>, []))"

subsection \<open>One poll: \<open>update_interface\<close>\<close>

text \<open>Lines 456 to 523, the branch with a battery.\<close>

definition on_battery :: "monitor \<Rightarrow> battery \<Rightarrow> tick \<Rightarrow> monitor \<times> event list" where
  "on_battery s b t =
     (let pct = py_round (percent b);
          charging = (power_plugged b = Some True);
          txt_time = format_time (secsleft b);
          rate = rate_per_hour s pct (time_rate t);
          s1 = s\<lparr>history := deque_append (history s) pct\<rparr>;
          shown = [DrawGauge pct charging,
                   DrawHistory (items (history s1)),
                   LabelState (if charging then Branche else SurBatterie),
                   LabelTime (Some (txt_time, length (items (history s1)))),
                   LabelRate rate,
                   LabelLast];
          (s2, crit) = critical_alert s1 pct charging txt_time (askyesno t);
          (s3, full) = full_alert s2 pct charging txt_time
      in (s3\<lparr>last_percent := Some pct, last_update := Some (time_end t)\<rparr>,
          shown @ crit @ full))"

text \<open>
  Lines 445 to 531. A monitor that was stopped returns at once. An exception of the
  sensor query is caught and logged (lines 524 and 525). Without a battery the gauge
  and the labels are reset and the history is cleared (lines 450 to 454). In every
  case of a running monitor the next poll is scheduled (line 529).
\<close>

definition update_interface :: "monitor \<Rightarrow> tick \<Rightarrow> monitor \<times> event list" where
  "update_interface s t =
     (if \<not> running s then (s, [])
      else
        (let (s', evs) =
               (case sensors_battery t of
                  SensorError \<Rightarrow> (s, [Log ErreurUpdate])
                | NoBattery \<Rightarrow>
                    (s\<lparr>history := deque_clear (history s)\<rparr>,
                     [DrawGauge 0 False, LabelState AucuneBatterie, LabelTime None])
                | Battery b \<Rightarrow> on_battery s b t)
         in (s', evs @ [After (interval_ms s')])))"

text \<open>The timer: one \<open>update_interface\<close> after the other, the events of each poll kept apart.\<close>

fun run :: "monitor \<Rightarrow> tick list \<Rightarrow> monitor \<times> event list list" where
  "run s [] = (s, [])"
| "run s (t # ts) =
     (let (s1, evs) = update_interface s t;
          (s2, rest) = run s1 ts
      in (s2, evs # rest))"

subsection \<open>The settings dialog: \<open>save_and_close\<close>\<close>

text \<open>
  The Tk variables of the dialog when \<^verbatim>\<open>Sauvegarder\<close> is pressed. The thresholds come
  from scales and always read as numbers; the interval comes from a free text entry, and
  \<^verbatim>\<open>interval_var.get()\<close> raises when the text is not a number (\<open>None\<close> here).
\<close>

record settings_form =
  crit_var :: int
  full_var :: int
  interval_var :: "int option"
  auto_h_var :: bool
  hiber_var :: int
  ps_var :: bool
  ps_thresh_var :: int
  notif_var :: bool
  sound_var :: bool
  start_min_var :: bool
  cmd_var :: string
  autorun_var :: bool

datatype dialog_event =
    SetAutorun bool
  | AutorunWarning
  | SaveConfig
  | InfoSaved
  | ErrorNotSaved

text \<open>
  Lines 648 to 673. The assignments run in order inside one \<^verbatim>\<open>try\<close>: when the interval
  does not read as a number the two thresholds are already stored, the rest is skipped
  and an error box is shown. \<open>autorun_ok\<close> is what \<^verbatim>\<open>set_autorun\<close> reports.
\<close>

definition save_and_close ::
  "monitor \<Rightarrow> settings_form \<Rightarrow> bool \<Rightarrow> monitor \<times> dialog_event list" where
  "save_and_close s f autorun_ok =
     (let s1 = s\<lparr>seuil_critique := max 1 (min 99 (crit_var f)),
                 seuil_plein := max 50 (min 100 (full_var f))\<rparr>
      in case interval_var f of
           None \<Rightarrow> (s1, [ErrorNotSaved])
         | Some i \<Rightarrow>
             (let s2 = s1\<lparr>interval_ms := max 1000 i,
                          auto_hibernate := auto_h_var f,
                          hibernate_threshold := max 1 (min 20 (hiber_var f)),
                          enable_power_saver_auto := ps_var f,
                          power_saver_threshold := max 5 (min 50 (ps_thresh_var f)),
                          enable_notifications := notif_var f,
                          play_sound := sound_var f,
                          start_minimized := start_min_var f,
                          custom_command := cmd_var f\<rparr>;
                  new_autorun = autorun_var f;
                  evs = (if new_autorun \<noteq> autorun s2 \<and> IS_WINDOWS s2
                         then SetAutorun new_autorun
                              # (if \<not> autorun_ok then [AutorunWarning] else [])
                         else [])
              in (s2\<lparr>autorun := new_autorun\<rparr>, evs @ [SaveConfig, InfoSaved])))"

subsection \<open>Reading a run\<close>

text \<open>
  The critical alert of a poll is the call \<^verbatim>\<open>show_big_alert(pct, txt_time, critical=True)\<close>,
  the full-charge alert the call with \<^verbatim>\<open>critical=False, full=True\<close>. The actions attached
  to the critical alert are the custom command, the switch to the power saver scheme,
  the hibernate question and the hibernation it may start.
\<close>

fun is_critical_alert :: "event \<Rightarrow> bool" where
  "is_critical_alert (BigAlert p txt critical full) = critical"
| "is_critical_alert _ = False"

fun is_full_alert :: "event \<Rightarrow> bool" where
  "is_full_alert (BigAlert p txt critical full) = (\<not> critical \<and> full)"
| "is_full_alert _ = False"

fun is_critical_action :: "event \<Rightarrow> bool" where
  "is_critical_action (Popen c) = True"
| "is_critical_action SetPowerSaver = True"
| "is_critical_action (AskHibernate p) = True"
| "is_critical_action Hibernate = True"
| "is_critical_action _ = False"

fun rates :: "event list \<Rightarrow> real list" where
  "rates [] = []"
| "rates (LabelRate r # evs) = r # rates evs"
| "rates (e # evs) = rates evs"

definition has_battery :: "tick \<Rightarrow> bool" where
  "has_battery t = (case sensors_battery t of Battery b \<Rightarrow> True | _ \<Rightarrow> False)"

text \<open>The rounded percentage of a poll (line 456); a poll without a reading has none.\<close>

definition pct_of :: "tick \<Rightarrow> int" where
  "pct_of t = (case sensors_battery t of Battery b \<Rightarrow> py_round (percent b) | _ \<Rightarrow> 0)"

definition charging_of :: "tick \<Rightarrow> bool" where
  "charging_of t =
     (case sensors_battery t of Battery b \<Rightarrow> power_plugged b = Some True | _ \<Rightarrow> False)"

definition time_text_of :: "tick \<Rightarrow> time_text" where
  "time_text_of t =
     (case sensors_battery t of Battery b \<Rightarrow> format_time (secsleft b) | _ \<Rightarrow> Inconnu)"

text \<open>The alert windows a poll can open, with the percentage and the time text they show.\<close>

definition critical_alert_event :: "tick \<Rightarrow> event" where
  "critical_alert_event t = BigAlert (pct_of t) (time_text_of t) True False"

definition full_alert_event :: "tick \<Rightarrow> event" where
  "full_alert_event t = BigAlert (pct_of t) (time_text_of t) False True"

text \<open>The two conditions as the specification words them, for given thresholds.\<close>

definition critical_condition :: "int \<Rightarrow> tick \<Rightarrow> bool" where
  "critical_condition crit t = (has_battery t \<and> pct_of t \<le> crit \<and> \<not> charging_of t)"

definition full_condition :: "int \<Rightarrow> tick \<Rightarrow> bool" where
  "full_condition full t = (has_battery t \<and> charging_of t \<and> full \<le> pct_of t)"

text \<open>
  An edge-triggered signal as the specification words it: given the latch before the
  first sample and the condition at each sample, it fires at the samples where the
  condition holds and did not hold at the sample before.
\<close>

fun rising_edges :: "bool \<Rightarrow> bool list \<Rightarrow> bool list" where
  "rising_edges latch [] = []"
| "rising_edges latch (c # cs) = (c \<and> \<not> latch) # rising_edges c cs"

text \<open>The most recent \<open>n\<close> values of a sequence, in arrival order.\<close>

definition most_recent :: "nat \<Rightarrow> 'a list \<Rightarrow> 'a list" where
  "most_recent n xs = drop (length xs - n) xs"

text \<open>A reading taken at time \<open>now\<close>, with no estimate of the remaining time.\<close>

definition sample :: "real \<Rightarrow> bool \<Rightarrow> real \<Rightarrow> tick" where
  "sample p plugged now =
     \<lparr>sensors_battery = Battery \<lparr>percent = p, secsleft = None, power_plugged = Some plugged\<rparr>,
      time_rate = now, time_end = now, askyesno = False\<rparr>"

definition no_battery :: "real \<Rightarrow> tick" where
  "no_battery now =
     \<lparr>sensors_battery = NoBattery, time_rate = now, time_end = now, askyesno = False\<rparr>"

text \<open>The monitor as \<open>__init__\<close> leaves it with the default configuration.\<close>

definition default_monitor :: "bool \<Rightarrow> monitor" where
  "default_monitor w = new_monitor w DEFAULT_CONFIG \<lparr>items = [], maxlen = 60\<rparr>"

text \<open>
  \<^verbatim>\<open>open_settings\<close>, lines 580 to 643: the dialog opens with every Tk variable set from
  the monitor's field of the same meaning.
\<close>

definition open_settings :: "monitor \<Rightarrow> settings_form" where
  "open_settings s =
     \<lparr>crit_var = seuil_critique s, full_var = seuil_plein s,
      interval_var = Some (interval_ms s), auto_h_var = auto_hibernate s,
      hiber_var = hibernate_threshold s, ps_var = enable_power_saver_auto s,
      ps_thresh_var = power_saver_threshold s, notif_var = enable_notifications s,
      sound_var = play_sound s, start_min_var = start_minimized s,
      cmd_var = custom_command s, autorun_var = autorun s\<rparr>"

text \<open>The monitor \<open>__init__\<close> builds when the configuration asks for a history of two places.\<close>

definition small_monitor :: monitor where
  "small_monitor =
     new_monitor False (DEFAULT_CONFIG\<lparr>cfg_history_size := 2\<rparr>) \<lparr>items = [], maxlen = 2\<rparr>"

text \<open>
  The percentages that arrived since the history was last cleared, starting from the
  content \<open>h\<close>: a reading adds its rounded percentage, a poll without a battery starts
  over, a failed sensor query changes nothing.
\<close>

fun since_clear :: "int list \<Rightarrow> tick list \<Rightarrow> int list" where
  "since_clear h [] = h"
| "since_clear h (t # ts) =
     since_clear
       (case sensors_battery t of
          SensorError \<Rightarrow> h
        | NoBattery \<Rightarrow> []
        | Battery b \<Rightarrow> h @ [py_round (percent b)]) ts"

section \<open>Facts about one poll\<close>

lemma critical_alert_state:
  "fst (critical_alert s pct charging txt answer) =
     s\<lparr>deja_alerte_critique := (pct \<le> seuil_critique s \<and> \<not> charging)\<rparr>"
  by (simp add: critical_alert_def)

lemma full_alert_state:
  "fst (full_alert s pct charging txt) =
     s\<lparr>deja_alerte_plein := (charging \<and> seuil_plein s \<le> pct)\<rparr>"
  by (simp add: full_alert_def)

lemma filter_beep [simp]:
  "filter is_critical_alert (beep s) = []"
  "filter is_full_alert (beep s) = []"
  "filter is_critical_action (beep s) = []"
  "rates (beep s) = []"
  by (simp_all add: beep_def)

lemma rates_append [simp]: "rates (xs @ ys) = rates xs @ rates ys"
  by (induction xs rule: rates.induct) simp_all

lemma critical_alert_events:
  "filter is_critical_alert (snd (critical_alert s pct charging txt answer)) =
     (if pct \<le> seuil_critique s \<and> \<not> charging \<and> \<not> deja_alerte_critique s
      then [BigAlert pct txt True False] else [])"
  "filter is_full_alert (snd (critical_alert s pct charging txt answer)) = []"
  "rates (snd (critical_alert s pct charging txt answer)) = []"
  by (simp_all add: critical_alert_def show_big_alert_def)

lemma critical_alert_actions:
  "\<not> (pct \<le> seuil_critique s \<and> \<not> charging \<and> \<not> deja_alerte_critique s) \<Longrightarrow>
     snd (critical_alert s pct charging txt answer) = []"
  by (auto simp add: critical_alert_def)

lemma full_alert_events:
  "filter is_full_alert (snd (full_alert s pct charging txt)) =
     (if charging \<and> seuil_plein s \<le> pct \<and> \<not> deja_alerte_plein s
      then [BigAlert pct txt False True] else [])"
  "filter is_critical_alert (snd (full_alert s pct charging txt)) = []"
  "filter is_critical_action (snd (full_alert s pct charging txt)) = []"
  "rates (snd (full_alert s pct charging txt)) = []"
  by (simp_all add: full_alert_def show_big_alert_def)

lemma on_battery_state:
  "fst (on_battery s b t) =
     s\<lparr>history := deque_append (history s) (py_round (percent b)),
       deja_alerte_critique :=
         (py_round (percent b) \<le> seuil_critique s \<and> power_plugged b \<noteq> Some True),
       deja_alerte_plein :=
         (power_plugged b = Some True \<and> seuil_plein s \<le> py_round (percent b)),
       last_percent := Some (py_round (percent b)),
       last_update := Some (time_end t)\<rparr>"
  by (simp add: on_battery_def Let_def split_beta critical_alert_state full_alert_state)

lemma on_battery_events:
  "snd (on_battery s b t) =
     (let pct = py_round (percent b);
          charging = (power_plugged b = Some True);
          txt = format_time (secsleft b);
          s1 = s\<lparr>history := deque_append (history s) pct\<rparr>
      in [DrawGauge pct charging,
          DrawHistory (items (history s1)),
          LabelState (if charging then Branche else SurBatterie),
          LabelTime (Some (txt, length (items (history s1)))),
          LabelRate (rate_per_hour s pct (time_rate t)),
          LabelLast]
         @ snd (critical_alert s1 pct charging txt (askyesno t))
         @ snd (full_alert (fst (critical_alert s1 pct charging txt (askyesno t))) pct charging txt))"
  by (simp add: on_battery_def Let_def split_beta)

lemma on_battery_critical:
  "filter is_critical_alert (snd (on_battery s b t)) =
     (if py_round (percent b) \<le> seuil_critique s \<and> power_plugged b \<noteq> Some True
         \<and> \<not> deja_alerte_critique s
      then [BigAlert (py_round (percent b)) (format_time (secsleft b)) True False] else [])"
  by (simp add: on_battery_events Let_def critical_alert_events full_alert_events)

lemma on_battery_full:
  "filter is_full_alert (snd (on_battery s b t)) =
     (if power_plugged b = Some True \<and> seuil_plein s \<le> py_round (percent b)
         \<and> \<not> deja_alerte_plein s
      then [BigAlert (py_round (percent b)) (format_time (secsleft b)) False True] else [])"
  by (simp add: on_battery_events Let_def critical_alert_events full_alert_events critical_alert_state)


lemma on_battery_actions:
  "\<not> (py_round (percent b) \<le> seuil_critique s \<and> power_plugged b \<noteq> Some True
         \<and> \<not> deja_alerte_critique s) \<Longrightarrow>
   filter is_critical_action (snd (on_battery s b t)) = []"
  by (simp add: on_battery_events Let_def critical_alert_actions full_alert_events)

lemma update_interface_battery:
  "running s \<Longrightarrow> sensors_battery t = Battery b \<Longrightarrow>
   update_interface s t = (fst (on_battery s b t), snd (on_battery s b t) @ [After (interval_ms s)])"
  by (simp add: update_interface_def split_beta on_battery_state)

lemma update_interface_stopped: "\<not> running s \<Longrightarrow> update_interface s t = (s, [])"
  by (simp add: update_interface_def)



lemma has_batteryE:
  assumes "has_battery t"
  obtains b where "sensors_battery t = Battery b"
  using assms by (auto simp add: has_battery_def split: poll.splits)

lemma step_critical:
  assumes "running s" "has_battery t"
  shows "filter is_critical_alert (snd (update_interface s t)) =
           (if critical_condition (seuil_critique s) t \<and> \<not> deja_alerte_critique s
            then [critical_alert_event t] else [])"
    and "deja_alerte_critique (fst (update_interface s t)) = critical_condition (seuil_critique s) t"
proof -
  from assms(2) obtain b where b: "sensors_battery t = Battery b" by (rule has_batteryE)
  show "filter is_critical_alert (snd (update_interface s t)) =
           (if critical_condition (seuil_critique s) t \<and> \<not> deja_alerte_critique s
            then [critical_alert_event t] else [])"
    using assms b
    by (simp add: update_interface_battery on_battery_critical critical_condition_def
        pct_of_def charging_of_def critical_alert_event_def time_text_of_def)
  show "deja_alerte_critique (fst (update_interface s t)) = critical_condition (seuil_critique s) t"
    using assms b
    by (simp add: update_interface_battery on_battery_state critical_condition_def
        pct_of_def charging_of_def)
qed

lemma step_full:
  assumes "running s" "has_battery t"
  shows "filter is_full_alert (snd (update_interface s t)) =
           (if full_condition (seuil_plein s) t \<and> \<not> deja_alerte_plein s
            then [full_alert_event t] else [])"
    and "deja_alerte_plein (fst (update_interface s t)) = full_condition (seuil_plein s) t"
proof -
  from assms(2) obtain b where b: "sensors_battery t = Battery b" by (rule has_batteryE)
  show "filter is_full_alert (snd (update_interface s t)) =
           (if full_condition (seuil_plein s) t \<and> \<not> deja_alerte_plein s
            then [full_alert_event t] else [])"
    using assms b
    by (simp add: update_interface_battery on_battery_full full_condition_def
        pct_of_def charging_of_def full_alert_event_def time_text_of_def)
  show "deja_alerte_plein (fst (update_interface s t)) = full_condition (seuil_plein s) t"
    using assms b
    by (simp add: update_interface_battery on_battery_state full_condition_def
        pct_of_def charging_of_def)
qed

lemma run_Cons_fst: "fst (run s (t # ts)) = fst (run (fst (update_interface s t)) ts)"
  by (simp add: split_beta)

lemma run_Cons_snd:
  "snd (run s (t # ts)) = snd (update_interface s t) # snd (run (fst (update_interface s t)) ts)"
  by (simp add: split_beta)

lemma step_frame:
  "running (fst (update_interface s t)) = running s"
  "seuil_critique (fst (update_interface s t)) = seuil_critique s"
  "seuil_plein (fst (update_interface s t)) = seuil_plein s"
  "maxlen (history (fst (update_interface s t))) = maxlen (history s)"
  by (simp_all add: update_interface_def split_beta on_battery_state deque_append_def deque_clear_def Let_def split: poll.splits)

lemmas evals = default_monitor_def small_monitor_def new_monitor_def DEFAULT_CONFIG_def
  sample_def no_battery_def update_interface_def on_battery_def critical_alert_def
  full_alert_def show_big_alert_def beep_def deque_append_def deque_clear_def py_round_def
  format_time_def rate_per_hour_def has_battery_def pct_of_def

lemma init_default: "init w DEFAULT_CONFIG = Inr (default_monitor w)"
  by (simp add: init_def default_monitor_def DEFAULT_CONFIG_def deque_new_def)

lemma init_small: "init False (DEFAULT_CONFIG\<lparr>cfg_history_size := 2\<rparr>) = Inr small_monitor"
  by (simp add: init_def small_monitor_def deque_new_def DEFAULT_CONFIG_def)

lemma init_negative: "cfg_history_size c < 0 \<Longrightarrow> init w c = Inl ValueError"
  by (simp add: init_def deque_new_def)

lemma step_critical_stopped_or_absent:
  "\<not> running s \<or> \<not> has_battery t \<Longrightarrow>
   filter is_critical_alert (snd (update_interface s t)) = []
   \<and> filter is_full_alert (snd (update_interface s t)) = []
   \<and> filter is_critical_action (snd (update_interface s t)) = []"
  by (cases "running s"; cases "sensors_battery t")
     (simp_all add: update_interface_def has_battery_def)

lemma step_actions:
  assumes "running s" "has_battery t"
    "\<not> (critical_condition (seuil_critique s) t \<and> \<not> deja_alerte_critique s)"
  shows "filter is_critical_action (snd (update_interface s t)) = []"
proof -
  from assms(2) obtain b where b: "sensors_battery t = Battery b" by (rule has_batteryE)
  with assms show ?thesis
    by (simp add: update_interface_battery on_battery_actions critical_condition_def
        pct_of_def charging_of_def has_battery_def)
qed



lemma rate_per_hour_cleared [simp]:
  "rate_per_hour (s\<lparr>history := h\<rparr>) pct now = rate_per_hour s pct now"
  by (simp add: rate_per_hour_def split: option.splits)

section \<open>The alerts\<close>

text \<open>
  Claim C1. Critical alerts are edge-triggered. Over any sequence of polls that all find
  a battery, fed to a running monitor, the polls that open the critical alert window are
  exactly those where the condition \<open>pct \<le> seuil_critique\<close> and not charging holds and did
  not hold at the poll before (for the first poll: the latch was not set). The window
  shows the poll's percentage and remaining time, no poll opens it twice, and after the
  run the latch is the condition at the last poll, so a poll where the condition is
  false resets it. The witness is the specification's example: with the threshold 15,
  the percentages 20, 16, 14, 12, 16 on battery give one alert, at 14.
\<close>

theorem critical_alert_edge_triggered:
  assumes "running s" and "list_all has_battery ts"
  shows "map (filter is_critical_alert) (snd (run s ts)) =
           map (\<lambda>(t, fire). if fire then [critical_alert_event t] else [])
             (zip ts (rising_edges (deja_alerte_critique s)
                        (map (critical_condition (seuil_critique s)) ts)))
         \<and> deja_alerte_critique (fst (run s ts)) =
             last (deja_alerte_critique s # map (critical_condition (seuil_critique s)) ts)"
  using assms
proof (induction ts arbitrary: s)
  case Nil
  then show ?case by simp
next
  case (Cons t ts)
  let ?s1 = "fst (update_interface s t)"
  from Cons.prems have t: "has_battery t" and ts: "list_all has_battery ts"
    by simp_all
  have run1: "running ?s1" and crit1: "seuil_critique ?s1 = seuil_critique s"
    using Cons.prems(1) by (simp_all add: step_frame)
  have latch1: "deja_alerte_critique ?s1 = critical_condition (seuil_critique s) t"
    using Cons.prems(1) t by (rule step_critical(2))
  have head: "filter is_critical_alert (snd (update_interface s t)) =
      (if critical_condition (seuil_critique s) t \<and> \<not> deja_alerte_critique s
       then [critical_alert_event t] else [])"
    using Cons.prems(1) t by (rule step_critical(1))
  from Cons.IH [OF run1 ts] show ?case
    by (simp only: run_Cons_fst run_Cons_snd crit1 latch1 head list.map rising_edges.simps
        zip_Cons_Cons last.simps prod.case) simp
qed

theorem critical_alert_edge_triggered_witness:
  "running (default_monitor False)
   \<and> list_all has_battery
       [sample 20 False 1, sample 16 False 2, sample 14 False 3,
        sample 12 False 4, sample 16 False 5]
   \<and> seuil_critique (default_monitor False) = 15
   \<and> map (filter is_critical_alert)
       (snd (run (default_monitor False)
          [sample 20 False 1, sample 16 False 2, sample 14 False 3,
           sample 12 False 4, sample 16 False 5]))
     = [[], [], [BigAlert 14 Inconnu True False], [], []]
   \<and> \<not> deja_alerte_critique
       (fst (run (default_monitor False)
          [sample 20 False 1, sample 16 False 2, sample 14 False 3,
           sample 12 False 4, sample 16 False 5]))"
  using critical_alert_edge_triggered [of "default_monitor False"
      "[sample 20 False 1, sample 16 False 2, sample 14 False 3,
        sample 12 False 4, sample 16 False 5]"]
  by (simp add: default_monitor_def new_monitor_def DEFAULT_CONFIG_def sample_def
      has_battery_def critical_condition_def pct_of_def charging_of_def py_round_def
      critical_alert_event_def time_text_of_def format_time_def)

text \<open>
  Claim C2. Full-charge alerts are edge-triggered in the same way on the condition
  charging and \<open>seuil_plein \<le> pct\<close>: over any sequence of polls that all find a battery,
  the full-charge window opens exactly at the polls where the condition holds and did
  not hold at the poll before, and the latch after the run is the condition at the last
  poll. The witness is the specification's example: with the threshold 95, the
  percentages 90, 96, 97, 96 while charging give one alert, at the first 96.
\<close>

theorem full_alert_edge_triggered:
  assumes "running s" and "list_all has_battery ts"
  shows "map (filter is_full_alert) (snd (run s ts)) =
           map (\<lambda>(t, fire). if fire then [full_alert_event t] else [])
             (zip ts (rising_edges (deja_alerte_plein s)
                        (map (full_condition (seuil_plein s)) ts)))
         \<and> deja_alerte_plein (fst (run s ts)) =
             last (deja_alerte_plein s # map (full_condition (seuil_plein s)) ts)"
  using assms
proof (induction ts arbitrary: s)
  case Nil
  then show ?case by simp
next
  case (Cons t ts)
  let ?s1 = "fst (update_interface s t)"
  from Cons.prems have t: "has_battery t" and ts: "list_all has_battery ts"
    by simp_all
  have run1: "running ?s1" and full1: "seuil_plein ?s1 = seuil_plein s"
    using Cons.prems(1) by (simp_all add: step_frame)
  have latch1: "deja_alerte_plein ?s1 = full_condition (seuil_plein s) t"
    using Cons.prems(1) t by (rule step_full(2))
  have head: "filter is_full_alert (snd (update_interface s t)) =
      (if full_condition (seuil_plein s) t \<and> \<not> deja_alerte_plein s
       then [full_alert_event t] else [])"
    using Cons.prems(1) t by (rule step_full(1))
  from Cons.IH [OF run1 ts] show ?case
    by (simp only: run_Cons_fst run_Cons_snd full1 latch1 head list.map rising_edges.simps
        zip_Cons_Cons last.simps prod.case) simp
qed

theorem full_alert_edge_triggered_witness:
  "running (default_monitor False)
   \<and> list_all has_battery
       [sample 90 True 1, sample 96 True 2, sample 97 True 3, sample 96 True 4]
   \<and> seuil_plein (default_monitor False) = 95
   \<and> map (filter is_full_alert)
       (snd (run (default_monitor False)
          [sample 90 True 1, sample 96 True 2, sample 97 True 3, sample 96 True 4]))
     = [[], [BigAlert 96 Inconnu False True], [], []]
   \<and> deja_alerte_plein
       (fst (run (default_monitor False)
          [sample 90 True 1, sample 96 True 2, sample 97 True 3, sample 96 True 4]))"
  using full_alert_edge_triggered [of "default_monitor False"
      "[sample 90 True 1, sample 96 True 2, sample 97 True 3, sample 96 True 4]"]
  by (simp add: default_monitor_def new_monitor_def DEFAULT_CONFIG_def sample_def
      has_battery_def full_condition_def pct_of_def charging_of_def py_round_def
      full_alert_event_def time_text_of_def format_time_def)

text \<open>
  Claim C9. No poll opens both alert windows: the critical condition needs the battery
  not to charge and the full-charge condition needs it to charge.
\<close>

theorem alerts_exclude_each_other:
  "filter is_critical_alert (snd (update_interface s t)) = []
   \<or> filter is_full_alert (snd (update_interface s t)) = []"
proof (cases "running s \<and> has_battery t")
  case True
  then have "critical_condition (seuil_critique s) t \<Longrightarrow> \<not> full_condition (seuil_plein s) t"
    by (simp add: critical_condition_def full_condition_def)
  with True show ?thesis
    by (auto simp add: step_critical(1) step_full(1))
next
  case False
  then show ?thesis
    using step_critical_stopped_or_absent [of s t] by blast
qed

theorem alerts_exclude_each_other_witness:
  "filter is_critical_alert (snd (update_interface (default_monitor False) (sample 14 False 1)))
     = [BigAlert 14 Inconnu True False]
   \<and> filter is_full_alert (snd (update_interface (default_monitor False) (sample 14 False 1))) = []
   \<and> filter is_full_alert (snd (update_interface (default_monitor False) (sample 96 True 1)))
     = [BigAlert 96 Inconnu False True]
   \<and> filter is_critical_alert (snd (update_interface (default_monitor False) (sample 96 True 1))) = []"
  using alerts_exclude_each_other [of "default_monitor False" "sample 14 False 1"]
    alerts_exclude_each_other [of "default_monitor False" "sample 96 True 1"]
  by (simp add: default_monitor_def new_monitor_def DEFAULT_CONFIG_def sample_def
      update_interface_def on_battery_def critical_alert_def full_alert_def
      show_big_alert_def beep_def deque_append_def py_round_def format_time_def)

text \<open>
  Claim C10. The actions attached to the critical alert (the custom command, the switch
  to the power saver scheme, the hibernate question and the hibernation) happen only in
  a poll that opens the critical alert window, which is a poll that finds the latch
  unset and sets it; a poll that finds the latch set triggers none of them, whatever
  the reading.
\<close>

theorem critical_actions_only_with_alert:
  "(filter is_critical_action (snd (update_interface s t)) \<noteq> []
      \<longrightarrow> filter is_critical_alert (snd (update_interface s t)) = [critical_alert_event t]
          \<and> \<not> deja_alerte_critique s
          \<and> deja_alerte_critique (fst (update_interface s t)))
   \<and> (deja_alerte_critique s
      \<longrightarrow> filter is_critical_action (snd (update_interface s t)) = [])"
proof (cases "running s \<and> has_battery t")
  case True
  then show ?thesis
    using step_actions [of s t] step_critical [of s t] by auto
next
  case False
  then show ?thesis
    using step_critical_stopped_or_absent [of s t] by blast
qed

theorem critical_actions_only_with_alert_witness:
  "filter is_critical_action
     (snd (update_interface
        ((default_monitor True)\<lparr>custom_command := ''notify'', enable_power_saver_auto := True,
            auto_hibernate := True\<rparr>)
        (sample 4 False 1)))
     = [Popen ''notify'', SetPowerSaver, AskHibernate 4]
   \<and> filter is_critical_alert
     (snd (update_interface
        ((default_monitor True)\<lparr>custom_command := ''notify'', enable_power_saver_auto := True,
            auto_hibernate := True\<rparr>)
        (sample 4 False 1)))
     = [BigAlert 4 Inconnu True False]
   \<and> deja_alerte_critique
     (fst (update_interface
        ((default_monitor True)\<lparr>custom_command := ''notify'', enable_power_saver_auto := True,
            auto_hibernate := True\<rparr>)
        (sample 4 False 1)))
   \<and> filter is_critical_action
     (snd (update_interface
        (fst (update_interface
           ((default_monitor True)\<lparr>custom_command := ''notify'', enable_power_saver_auto := True,
               auto_hibernate := True\<rparr>)
           (sample 4 False 1)))
        (sample 3 False 2)))
     = []"
  using critical_actions_only_with_alert
      [of "(default_monitor True)\<lparr>custom_command := ''notify'', enable_power_saver_auto := True,
            auto_hibernate := True\<rparr>" "sample 4 False 1"]
    critical_actions_only_with_alert
      [of "fst (update_interface
           ((default_monitor True)\<lparr>custom_command := ''notify'', enable_power_saver_auto := True,
               auto_hibernate := True\<rparr>)
           (sample 4 False 1))" "sample 3 False 2"]
  by (simp add: evals critical_alert_event_def time_text_of_def)

section \<open>The history\<close>

lemma length_most_recent: "length (most_recent n xs) \<le> n"
  by (simp add: most_recent_def)

lemma most_recent_snoc:
  "most_recent n (most_recent n xs @ [x]) = most_recent n (xs @ [x])"
  by (cases "length xs \<le> n") (simp_all add: most_recent_def Suc_diff_le)

lemma most_recent_id: "length xs \<le> n \<Longrightarrow> most_recent n xs = xs"
  by (simp add: most_recent_def)

lemma most_recent_append_long:
  "n \<le> length ys \<Longrightarrow> most_recent n (xs @ ys) = most_recent n ys"
  by (simp add: most_recent_def)

lemma deque_append_items:
  "length (items d) \<le> maxlen d \<Longrightarrow>
   items (deque_append d x) = most_recent (maxlen d) (items d @ [x])"
  by (cases "items d") (auto simp add: deque_append_def most_recent_def Let_def drop_Cons')

lemma since_clear_most_recent:
  "most_recent n (since_clear (most_recent n h) ts) = most_recent n (since_clear h ts)"
proof (induction ts arbitrary: h)
  case Nil
  show ?case by (simp add: most_recent_def)
next
  case (Cons t ts)
  show ?case
  proof (cases "sensors_battery t")
    case (Battery b)
    have "most_recent n (since_clear (most_recent n h @ [py_round (percent b)]) ts)
        = most_recent n (since_clear (most_recent n (most_recent n h @ [py_round (percent b)])) ts)"
      by (simp only: Cons.IH)
    also have "\<dots> = most_recent n (since_clear (most_recent n (h @ [py_round (percent b)])) ts)"
      by (simp only: most_recent_snoc)
    also have "\<dots> = most_recent n (since_clear (h @ [py_round (percent b)]) ts)"
      by (simp only: Cons.IH)
    finally show ?thesis using Battery by simp
  qed (simp_all add: Cons.IH)
qed

lemma since_clear_all_battery:
  "list_all has_battery ts \<Longrightarrow> since_clear h ts = h @ map pct_of ts"
  by (induction ts arbitrary: h)
     (auto simp add: has_battery_def pct_of_def split: poll.splits)

lemma step_history:
  assumes "running s" "length (items (history s)) \<le> maxlen (history s)"
  shows "items (history (fst (update_interface s t))) =
           most_recent (maxlen (history s)) (since_clear (items (history s)) [t])"
  using assms
  by (cases "sensors_battery t")
     (simp_all add: update_interface_def split_beta on_battery_state deque_append_items
        deque_clear_def most_recent_id)

lemma step_history_length:
  assumes "length (items (history s)) \<le> maxlen (history s)"
  shows "length (items (history (fst (update_interface s t)))) \<le> maxlen (history s)"
proof (cases "running s")
  case True
  with assms show ?thesis by (simp add: step_history length_most_recent)
next
  case False
  with assms show ?thesis by (simp add: update_interface_stopped)
qed

lemma run_history_length:
  "length (items (history s)) \<le> maxlen (history s) \<Longrightarrow>
   length (items (history (fst (run s ts)))) \<le> maxlen (history s)
   \<and> maxlen (history (fst (run s ts))) = maxlen (history s)"
proof (induction ts arbitrary: s)
  case Nil
  then show ?case by simp
next
  case (Cons t ts)
  have "length (items (history (fst (update_interface s t))))
      \<le> maxlen (history (fst (update_interface s t)))"
    using Cons.prems by (simp add: step_history_length step_frame)
  from Cons.IH [OF this] show ?case
    by (simp add: run_Cons_fst step_frame del: run.simps)
qed

lemma run_history:
  "running s \<Longrightarrow> length (items (history s)) \<le> maxlen (history s) \<Longrightarrow>
   items (history (fst (run s ts))) =
     most_recent (maxlen (history s)) (since_clear (items (history s)) ts)"
proof (induction ts arbitrary: s)
  case Nil
  then show ?case by (simp add: most_recent_id)
next
  case (Cons t ts)
  let ?s1 = "fst (update_interface s t)"
  have r1: "running ?s1" and m1: "maxlen (history ?s1) = maxlen (history s)"
    using Cons.prems(1) by (simp_all add: step_frame)
  have l1: "length (items (history ?s1)) \<le> maxlen (history ?s1)"
    using Cons.prems(2) by (simp add: step_history_length step_frame)
  have h1: "items (history ?s1) =
      most_recent (maxlen (history s)) (since_clear (items (history s)) [t])"
    using Cons.prems by (rule step_history)
  have "items (history (fst (run s (t # ts)))) =
      most_recent (maxlen (history s)) (since_clear (items (history ?s1)) ts)"
    using Cons.IH [OF r1 l1] by (simp only: run_Cons_fst m1)
  also have "\<dots> = most_recent (maxlen (history s))
      (since_clear (since_clear (items (history s)) [t]) ts)"
    by (simp only: h1 since_clear_most_recent)
  finally show ?case by simp
qed

text \<open>
  Claim C3, as amended. The history never holds more items than the deque's \<open>maxlen\<close>,
  which no poll changes. A poll without a battery empties the history, so what a running
  monitor holds after any sequence of polls is the most recent \<open>maxlen\<close> of the rounded
  percentages that arrived since the last poll without a battery, in arrival order. For
  polls that all find a battery, at least \<open>maxlen\<close> of them, these are the most recent
  \<open>maxlen\<close> percentages of the sequence.
\<close>

theorem history_ring_buffer:
  assumes "length (items (history s)) \<le> maxlen (history s)"
  shows "length (items (history (fst (run s ts)))) \<le> maxlen (history s)
         \<and> maxlen (history (fst (run s ts))) = maxlen (history s)
         \<and> (running s \<longrightarrow>
              items (history (fst (run s ts))) =
                most_recent (maxlen (history s)) (since_clear (items (history s)) ts))
         \<and> (running s \<and> list_all has_battery ts \<and> maxlen (history s) \<le> length ts \<longrightarrow>
              items (history (fst (run s ts))) =
                most_recent (maxlen (history s)) (map pct_of ts))"
  using assms
  by (simp add: run_history_length run_history since_clear_all_battery most_recent_append_long)

theorem history_ring_buffer_witness:
  "length (items (history small_monitor)) \<le> maxlen (history small_monitor)
   \<and> running small_monitor
   \<and> list_all has_battery [sample 10 False 1, sample 20 False 2, sample 30 False 3]
   \<and> maxlen (history small_monitor) \<le> length [sample 10 False 1, sample 20 False 2, sample 30 False 3]
   \<and> items (history (fst (run small_monitor
        [sample 10 False 1, sample 20 False 2, sample 30 False 3]))) = [20, 30]
   \<and> most_recent (maxlen (history small_monitor))
        (map pct_of [sample 10 False 1, sample 20 False 2, sample 30 False 3]) = [20, 30]"
  using history_ring_buffer [of small_monitor
      "[sample 10 False 1, sample 20 False 2, sample 30 False 3]"]
  by (simp add: most_recent_def evals)

text \<open>
  The claim as stated fails when a poll without a battery falls inside the sequence:
  with two places, after 10, 20, no battery, 30 the history is 30 alone, neither the
  last two percentages read nor the last two with the absent reading counted as 0.
\<close>

theorem history_ring_buffer_counterexample:
  "maxlen (history small_monitor) = 2
   \<and> items (history (fst (run small_monitor
        [sample 10 False 1, sample 20 False 2, no_battery 3, sample 30 False 4]))) = [30]
   \<and> most_recent 2
        (map pct_of [sample 10 False 1, sample 20 False 2, no_battery 3, sample 30 False 4])
      = [0, 30]
   \<and> most_recent 2 (map pct_of [sample 10 False 1, sample 20 False 2, sample 30 False 4])
      = [20, 30]"
  by (simp add: most_recent_def evals)

section \<open>Polls without a battery and the charge rate\<close>







section \<open>The settings dialog\<close>

lemma save_and_close_frame:
  "deja_alerte_critique (fst (save_and_close s f ok)) = deja_alerte_critique s"
  "deja_alerte_plein (fst (save_and_close s f ok)) = deja_alerte_plein s"
  "history (fst (save_and_close s f ok)) = history s"
  "last_percent (fst (save_and_close s f ok)) = last_percent s"
  "last_update (fst (save_and_close s f ok)) = last_update s"
  "running (fst (save_and_close s f ok)) = running s"
  "IS_WINDOWS (fst (save_and_close s f ok)) = IS_WINDOWS s"
  "history_size (fst (save_and_close s f ok)) = history_size s"
  by (simp_all add: save_and_close_def Let_def split: option.splits)

lemma save_and_close_thresholds:
  "seuil_critique (fst (save_and_close s f ok)) = max 1 (min 99 (crit_var f))"
  "seuil_plein (fst (save_and_close s f ok)) = max 50 (min 100 (full_var f))"
  by (simp_all add: save_and_close_def Let_def split: option.splits)

lemma save_and_close_failed:
  "interval_var f = None \<Longrightarrow>
   save_and_close s f ok =
     (s\<lparr>seuil_critique := max 1 (min 99 (crit_var f)),
        seuil_plein := max 50 (min 100 (full_var f))\<rparr>, [ErrorNotSaved])"
  by (simp add: save_and_close_def)

lemma save_and_close_saved:
  assumes "interval_var f = Some i"
  shows "interval_ms (fst (save_and_close s f ok)) = max 1000 i"
    and "hibernate_threshold (fst (save_and_close s f ok)) = max 1 (min 20 (hiber_var f))"
    and "power_saver_threshold (fst (save_and_close s f ok)) = max 5 (min 50 (ps_thresh_var f))"
    and "snd (save_and_close s f ok) \<noteq> [ErrorNotSaved]"
  using assms by (simp_all add: save_and_close_def Let_def)

text \<open>
  Claim C6. Saving the settings replaces the thresholds and leaves both latches, the
  history and the trackers of the last reading as they were; a critical latch that is
  set stays set although the threshold changed. The next poll evaluates both conditions
  with the thresholds just stored (the dialog's values, brought into 1 to 99 and 50 to
  100) against the latches from before the save.
\<close>

theorem save_and_close_keeps_latches:
  "deja_alerte_critique (fst (save_and_close s f ok)) = deja_alerte_critique s
   \<and> deja_alerte_plein (fst (save_and_close s f ok)) = deja_alerte_plein s
   \<and> history (fst (save_and_close s f ok)) = history s
   \<and> last_percent (fst (save_and_close s f ok)) = last_percent s
   \<and> last_update (fst (save_and_close s f ok)) = last_update s
   \<and> seuil_critique (fst (save_and_close s f ok)) = max 1 (min 99 (crit_var f))
   \<and> seuil_plein (fst (save_and_close s f ok)) = max 50 (min 100 (full_var f))
   \<and> (running s \<and> has_battery t \<longrightarrow>
        filter is_critical_alert (snd (update_interface (fst (save_and_close s f ok)) t)) =
          (if critical_condition (max 1 (min 99 (crit_var f))) t \<and> \<not> deja_alerte_critique s
           then [critical_alert_event t] else [])
        \<and> deja_alerte_critique (fst (update_interface (fst (save_and_close s f ok)) t)) =
            critical_condition (max 1 (min 99 (crit_var f))) t
        \<and> filter is_full_alert (snd (update_interface (fst (save_and_close s f ok)) t)) =
          (if full_condition (max 50 (min 100 (full_var f))) t \<and> \<not> deja_alerte_plein s
           then [full_alert_event t] else [])
        \<and> deja_alerte_plein (fst (update_interface (fst (save_and_close s f ok)) t)) =
            full_condition (max 50 (min 100 (full_var f))) t)"
  by (simp add: save_and_close_frame save_and_close_thresholds step_critical step_full)

theorem save_and_close_keeps_latches_witness:
  "running (fst (update_interface (default_monitor False) (sample 14 False 1)))
   \<and> deja_alerte_critique (fst (update_interface (default_monitor False) (sample 14 False 1)))
   \<and> has_battery (sample 18 False 2)
   \<and> deja_alerte_critique
       (fst (save_and_close (fst (update_interface (default_monitor False) (sample 14 False 1)))
          ((open_settings (default_monitor False))\<lparr>crit_var := 20\<rparr>) True))
   \<and> seuil_critique
       (fst (save_and_close (fst (update_interface (default_monitor False) (sample 14 False 1)))
          ((open_settings (default_monitor False))\<lparr>crit_var := 20\<rparr>) True)) = 20
   \<and> filter is_critical_alert
       (snd (update_interface
          (fst (save_and_close (fst (update_interface (default_monitor False) (sample 14 False 1)))
             ((open_settings (default_monitor False))\<lparr>crit_var := 20\<rparr>) True))
          (sample 18 False 2))) = []
   \<and> filter is_critical_alert
       (snd (update_interface
          (fst (save_and_close (default_monitor False)
             ((open_settings (default_monitor False))\<lparr>crit_var := 20\<rparr>) True))
          (sample 18 False 2))) = [BigAlert 18 Inconnu True False]
   \<and> \<not> deja_alerte_critique
       (fst (update_interface
          (fst (save_and_close (fst (update_interface (default_monitor False) (sample 14 False 1)))
             ((open_settings (default_monitor False))\<lparr>crit_var := 10\<rparr>) True))
          (sample 12 False 2)))"
  using save_and_close_keeps_latches
      [of "fst (update_interface (default_monitor False) (sample 14 False 1))"
          "(open_settings (default_monitor False))\<lparr>crit_var := 20\<rparr>" True "sample 18 False 2"]
    save_and_close_keeps_latches
      [of "default_monitor False"
          "(open_settings (default_monitor False))\<lparr>crit_var := 20\<rparr>" True "sample 18 False 2"]
    save_and_close_keeps_latches
      [of "fst (update_interface (default_monitor False) (sample 14 False 1))"
          "(open_settings (default_monitor False))\<lparr>crit_var := 10\<rparr>" True "sample 12 False 2"]
  by (simp add: evals open_settings_def save_and_close_def critical_condition_def charging_of_def
      critical_alert_event_def time_text_of_def full_condition_def full_alert_event_def)

text \<open>
  Claim C8, as amended. After any save \<open>seuil_critique\<close> is in 1 to 99 and \<open>seuil_plein\<close>
  in 50 to 100. When the interval entry reads as a number the save goes through, and
  then \<open>interval_ms\<close> is at least 1000, \<open>hibernate_threshold\<close> is in 1 to 20 whatever the
  critical threshold is, and \<open>power_saver_threshold\<close> is in 5 to 50. When the entry
  does not read as a number only the two percent thresholds are replaced.
\<close>

theorem save_and_close_ranges:
  "1 \<le> seuil_critique (fst (save_and_close s f ok))
   \<and> seuil_critique (fst (save_and_close s f ok)) \<le> 99
   \<and> 50 \<le> seuil_plein (fst (save_and_close s f ok))
   \<and> seuil_plein (fst (save_and_close s f ok)) \<le> 100
   \<and> (\<forall>i. interval_var f = Some i \<longrightarrow>
        interval_ms (fst (save_and_close s f ok)) = max 1000 i
        \<and> 1000 \<le> interval_ms (fst (save_and_close s f ok))
        \<and> 1 \<le> hibernate_threshold (fst (save_and_close s f ok))
        \<and> hibernate_threshold (fst (save_and_close s f ok)) \<le> 20
        \<and> hibernate_threshold (fst (save_and_close s f ok)) = max 1 (min 20 (hiber_var f))
        \<and> 5 \<le> power_saver_threshold (fst (save_and_close s f ok))
        \<and> power_saver_threshold (fst (save_and_close s f ok)) \<le> 50
        \<and> snd (save_and_close s f ok) \<noteq> [ErrorNotSaved])
   \<and> (interval_var f = None \<longrightarrow>
        snd (save_and_close s f ok) = [ErrorNotSaved]
        \<and> interval_ms (fst (save_and_close s f ok)) = interval_ms s
        \<and> hibernate_threshold (fst (save_and_close s f ok)) = hibernate_threshold s)"
proof (cases "interval_var f")
  case None
  then show ?thesis
    by (simp add: save_and_close_thresholds save_and_close_failed)
next
  case (Some i)
  then show ?thesis
    by (simp add: save_and_close_thresholds save_and_close_saved)
qed

theorem save_and_close_ranges_witness:
  "interval_var ((open_settings (default_monitor False))\<lparr>crit_var := 150, interval_var := Some 10\<rparr>)
     = Some 10
   \<and> seuil_critique (fst (save_and_close (default_monitor False)
        ((open_settings (default_monitor False))\<lparr>crit_var := 150, interval_var := Some 10\<rparr>) True)) = 99
   \<and> interval_ms (fst (save_and_close (default_monitor False)
        ((open_settings (default_monitor False))\<lparr>crit_var := 150, interval_var := Some 10\<rparr>) True)) = 1000
   \<and> interval_var ((open_settings (default_monitor False))\<lparr>interval_var := None\<rparr>) = None
   \<and> snd (save_and_close (default_monitor False)
        ((open_settings (default_monitor False))\<lparr>interval_var := None\<rparr>) True) = [ErrorNotSaved]"
  using save_and_close_ranges [of "default_monitor False"
      "(open_settings (default_monitor False))\<lparr>crit_var := 150, interval_var := Some 10\<rparr>" True]
    save_and_close_ranges [of "default_monitor False"
      "(open_settings (default_monitor False))\<lparr>interval_var := None\<rparr>" True]
  by (simp add: evals open_settings_def save_and_close_def)

text \<open>
  The claim as stated fails: the critical threshold 5 and the hibernate threshold 15,
  both within the dialog's scales, are stored as they are, and 15 is above 5. An
  interval of 500 ms loaded from the configuration file survives a save that fails on
  the interval entry.
\<close>

theorem save_and_close_ranges_counterexample:
  "seuil_critique (fst (save_and_close (default_monitor False)
      ((open_settings (default_monitor False))\<lparr>crit_var := 5, hiber_var := 15\<rparr>) True)) = 5
   \<and> hibernate_threshold (fst (save_and_close (default_monitor False)
      ((open_settings (default_monitor False))\<lparr>crit_var := 5, hiber_var := 15\<rparr>) True)) = 15
   \<and> \<not> hibernate_threshold (fst (save_and_close (default_monitor False)
        ((open_settings (default_monitor False))\<lparr>crit_var := 5, hiber_var := 15\<rparr>) True))
      \<le> seuil_critique (fst (save_and_close (default_monitor False)
        ((open_settings (default_monitor False))\<lparr>crit_var := 5, hiber_var := 15\<rparr>) True))
   \<and> interval_ms (fst (save_and_close
        (new_monitor False (DEFAULT_CONFIG\<lparr>cfg_interval_ms := 500\<rparr>) \<lparr>items = [], maxlen = 60\<rparr>)
        ((open_settings (default_monitor False))\<lparr>interval_var := None\<rparr>) True)) = 500"
  by (simp add: evals open_settings_def save_and_close_def)

section \<open>Totality of a poll\<close>




end
